theory Spec2Isabelle
  imports Main "HOL-Library.AList"
begin

section \<open>The interactive sampling driver: \<^verbatim>\<open>interact_model\<close>\<close>

text \<open>
  The repository's one source file, \<^verbatim>\<open>interactive_conditional_samples.py\<close>, holds one
  function, \<^verbatim>\<open>interact_model\<close>. It checks its arguments, loads the encoder and the
  hyperparameters, opens a TensorFlow session, and then serves prompts read from standard
  input for ever. The embedding below follows it line by line:

  \<^item> every raise of the source is a value of \<open>error\<close>;
  \<^item> every call that leaves the function (the encoder, the file system, numpy, TensorFlow,
    \<^verbatim>\<open>input\<close>, \<^verbatim>\<open>print\<close>) is recorded as an \<open>event\<close>, in call order, so that claims about
    what happens before what are statements about a list;
  \<^item> the collaborators themselves (\<^verbatim>\<open>gpt_2.encoder\<close>, \<^verbatim>\<open>gpt_2.model\<close>, \<^verbatim>\<open>gpt_2.sample\<close>,
    numpy, TensorFlow, the files under the models directory) are not part of the source;
    they are the fields of a record \<open>env\<close>, and every theorem holds for every \<open>env\<close>;
  \<^item> standard input is a finite list of lines. When the lines are used up \<^verbatim>\<open>input\<close> raises
    \<^verbatim>\<open>EOFError\<close>, as Python does at end of input, so every run on a finite input ends with an
    error: the loop of the source has no other exit.

  Python integers are unbounded: \<open>int\<close>. Python's \<^verbatim>\<open>//\<close> and \<^verbatim>\<open>%\<close> round towards minus
  infinity, as \<open>div\<close> and \<open>mod\<close> on \<open>int\<close> do; they raise on a zero divisor, where HOL
  returns a value, so the zero divisor is a branch of its own. The floats \<^verbatim>\<open>temperature\<close> and
  \<^verbatim>\<open>top_p\<close> are handed to \<^verbatim>\<open>sample_sequence\<close> untouched; their type is the parameter \<open>'f\<close>.
  The values of \<^verbatim>\<open>hparams.json\<close> are taken to be integers, as the metadata of the published
  models are (\<^verbatim>\<open>n_vocab\<close>, \<^verbatim>\<open>n_ctx\<close>, \<^verbatim>\<open>n_embd\<close>, \<^verbatim>\<open>n_head\<close>, \<^verbatim>\<open>n_layer\<close>). The \<^verbatim>\<open>assert\<close> of the
  source is taken as executed (the interpreter is not run with \<^verbatim>\<open>-O\<close>).
\<close>

subsection \<open>Data\<close>

type_synonym token = int

datatype error =
    ZeroDivisionError
  | AssertionError
  | ValueError string
  | EOFError
  | IndexError
  | Raised string \<comment> \<open>an exception raised inside a collaborator, by its text\<close>

text \<open>The object \<^verbatim>\<open>encoder.get_encoder\<close> returns: the two methods the function calls.\<close>

record encoder =
  encode :: "string \<Rightarrow> token list"
  decode :: "token list \<Rightarrow> string"

text \<open>
  The hyperparameter object is used through \<^verbatim>\<open>setattr\<close> and \<^verbatim>\<open>getattr\<close> only: its
  attribute dictionary, an association list in insertion order.
\<close>

type_synonym hparams = "(string \<times> int) list"

text \<open>The keyword arguments of \<^verbatim>\<open>sample.sample_sequence\<close> (lines 69 to 77).\<close>

record 'f sample_args =
  arg_hparams :: hparams
  arg_length :: int
  arg_batch_size :: int
  arg_temperature :: 'f
  arg_top_k :: int
  arg_top_p :: 'f

text \<open>The parameters of \<^verbatim>\<open>interact_model\<close> (lines 14 to 24).\<close>

record 'f config =
  model_name :: string
  seed :: "int option"
  nsamples :: int
  batch_size :: "int option"
  length_arg :: "int option"
  temperature :: 'f
  top_k :: int
  top_p :: 'f
  models_dir :: string

text \<open>The calls that leave the function, in the order the source makes them.\<close>

datatype 'f event =
    GetEncoder string string \<comment> \<open>\<^verbatim>\<open>encoder.get_encoder(model_name, models_dir)\<close>, line 50\<close>
  | DefaultHparams \<comment> \<open>\<^verbatim>\<open>model.default_hparams()\<close>, line 51\<close>
  | OpenHparams string string \<comment> \<open>\<^verbatim>\<open>open\<close> and \<^verbatim>\<open>json.load\<close> of hparams.json, lines 52, 53\<close>
  | Session \<comment> \<open>\<^verbatim>\<open>tf1.Session(graph=tf1.Graph())\<close>, line 65\<close>
  | Placeholder int \<comment> \<open>\<^verbatim>\<open>tf1.placeholder(tf.int32, [batch_size, None])\<close>, line 66\<close>
  | NpSeed "int option" \<comment> \<open>\<^verbatim>\<open>np.random.seed(seed)\<close>, line 67\<close>
  | TfSeed "int option" \<comment> \<open>\<^verbatim>\<open>tf1.set_random_seed(seed)\<close>, line 68\<close>
  | SampleSequence "'f sample_args" \<comment> \<open>\<^verbatim>\<open>sample.sample_sequence(...)\<close>, line 69\<close>
  | Restore string string \<comment> \<open>the saver, the latest checkpoint and its restore, lines 78 to 80\<close>
  | Input \<comment> \<open>\<^verbatim>\<open>input("Model prompt >>> ")\<close>, lines 83 and 86\<close>
  | Print string \<comment> \<open>\<^verbatim>\<open>print\<close>, lines 85, 97, 98, 99\<close>
  | Encode string \<comment> \<open>\<^verbatim>\<open>enc.encode(raw_text)\<close>, line 87\<close>
  | Run "token list list" \<comment> \<open>\<^verbatim>\<open>sess.run(output, feed_dict=...)\<close> with the batch fed, line 90\<close>
  | Decode "token list" \<comment> \<open>\<^verbatim>\<open>enc.decode(out[i])\<close>, line 96\<close>

text \<open>
  The collaborators. \<open>'w\<close> is the state of the numpy and TensorFlow runtime (the graph, the
  variables, the random generators): each call takes it and returns it updated, or raises.
\<close>

record ('f, 'w) env =
  expand_path :: "string \<Rightarrow> string"
    \<comment> \<open>\<^verbatim>\<open>os.path.expanduser(os.path.expandvars(.))\<close>\<close>
  get_encoder :: "string \<Rightarrow> string \<Rightarrow> error + encoder"
  default_hparams :: hparams
  read_hparams :: "string \<Rightarrow> string \<Rightarrow> error + (string \<times> int) list"
    \<comment> \<open>the items of the dictionary in models_dir/model_name/hparams.json\<close>
  new_session :: "error + 'w"
  placeholder :: "int \<Rightarrow> 'w \<Rightarrow> error + 'w"
  np_seed :: "int option \<Rightarrow> 'w \<Rightarrow> error + 'w"
  tf_seed :: "int option \<Rightarrow> 'w \<Rightarrow> error + 'w"
  sample_sequence :: "'f sample_args \<Rightarrow> 'w \<Rightarrow> error + 'w"
  restore :: "string \<Rightarrow> string \<Rightarrow> 'w \<Rightarrow> error + 'w"
  sess_run :: "'w \<Rightarrow> token list list \<Rightarrow> error + (token list list \<times> 'w)"

subsection \<open>Sequencing\<close>

text \<open>
  A step yields the events it caused and either an error or a value. \<open>then_do\<close> runs the
  next step only after a value: an error ends the run with the events so far.
\<close>

definition then_do ::
  "'e list \<times> (error + 'a) \<Rightarrow> ('a \<Rightarrow> 'e list \<times> (error + 'b)) \<Rightarrow> 'e list \<times> (error + 'b)" where
  "then_do m f =
     (case m of
        (t, Inl e) \<Rightarrow> (t, Inl e)
      | (t, Inr a) \<Rightarrow> (case f a of (t', r) \<Rightarrow> (t @ t', r)))"

subsection \<open>Python's \<^verbatim>\<open>str\<close> on integers\<close>

definition digit :: "nat \<Rightarrow> char" where
  "digit d = ''0123456789'' ! d"

function str_nat :: "nat \<Rightarrow> string" where
  "str_nat n = (if n < 10 then [digit n] else str_nat (n div 10) @ [digit (n mod 10)])"
  by pat_completeness auto
termination
  by (relation "measure id") auto

definition str :: "int \<Rightarrow> string" where
  "str i = (if i < 0 then CHR ''-'' # str_nat (nat (- i)) else str_nat (nat i))"

subsection \<open>Argument checks and loading (lines 45 to 61)\<close>

text \<open>
  Lines 46 to 48: \<^verbatim>\<open>if batch_size is None: batch_size = 1\<close> and
  \<^verbatim>\<open>assert nsamples % batch_size == 0\<close>. The remainder by zero raises before the
  comparison is made.
\<close>

definition check_batch_size :: "int \<Rightarrow> int option \<Rightarrow> error + int" where
  "check_batch_size n b =
     (let batch_size = (case b of None \<Rightarrow> 1 | Some k \<Rightarrow> k) in
      if batch_size = 0 then Inl ZeroDivisionError
      else if n mod batch_size \<noteq> 0 then Inl AssertionError
      else Inr batch_size)"

definition setattr :: "hparams \<Rightarrow> string \<Rightarrow> int \<Rightarrow> hparams" where
  "setattr h k v = AList.update k v h"

definition getattr :: "hparams \<Rightarrow> string \<Rightarrow> int \<Rightarrow> int" where
  "getattr h k d = (case map_of h k of None \<Rightarrow> d | Some v \<Rightarrow> v)"

text \<open>Lines 54 and 55: \<^verbatim>\<open>for k, v in hparams_dict.items(): setattr(hparams, k, v)\<close>.\<close>

definition overlay :: "hparams \<Rightarrow> (string \<times> int) list \<Rightarrow> hparams" where
  "overlay h items = fold (\<lambda>(k, v) h'. setattr h' k v) items h"

text \<open>Lines 50 to 55: the encoder, the default hyperparameters, the metadata file.\<close>

definition load_model ::
  "('f, 'w) env \<Rightarrow> string \<Rightarrow> string \<Rightarrow> 'f event list \<times> (error + encoder \<times> hparams)" where
  "load_model env name dir =
     then_do ([GetEncoder name dir], get_encoder env name dir) (\<lambda>enc.
     then_do ([DefaultHparams, OpenHparams dir name], read_hparams env dir name) (\<lambda>hparams_dict.
       ([], Inr (enc, overlay (default_hparams env) hparams_dict))))"

text \<open>Lines 57 to 61: the context window and the length of a sample.\<close>

definition n_ctx :: "hparams \<Rightarrow> int" where
  "n_ctx h = getattr h ''n_ctx'' 1024"

definition resolve_length :: "hparams \<Rightarrow> int option \<Rightarrow> error + int" where
  "resolve_length h len =
     (case len of
        None \<Rightarrow> Inr (n_ctx h div 2)
      | Some l \<Rightarrow>
          if l > n_ctx h
          then Inl (ValueError (''Can't get samples longer than window size: '' @ str (n_ctx h)))
          else Inr l)"

subsection \<open>The session (lines 65 to 80)\<close>

definition open_session ::
  "('f, 'w) env \<Rightarrow> 'f config \<Rightarrow> string \<Rightarrow> int \<Rightarrow> hparams \<Rightarrow> int \<Rightarrow> 'f event list \<times> (error + 'w)" where
  "open_session env cfg dir bs h len =
     then_do ([Session], new_session env) (\<lambda>w0.
     then_do ([Placeholder bs], placeholder env bs w0) (\<lambda>w1.
     then_do ([NpSeed (seed cfg)], np_seed env (seed cfg) w1) (\<lambda>w2.
     then_do ([TfSeed (seed cfg)], tf_seed env (seed cfg) w2) (\<lambda>w3.
     then_do
       ([SampleSequence
           \<lparr>arg_hparams = h, arg_length = len, arg_batch_size = bs,
            arg_temperature = temperature cfg, arg_top_k = top_k cfg, arg_top_p = top_p cfg\<rparr>],
        sample_sequence env
           \<lparr>arg_hparams = h, arg_length = len, arg_batch_size = bs,
            arg_temperature = temperature cfg, arg_top_k = top_k cfg, arg_top_p = top_p cfg\<rparr> w3)
       (\<lambda>w4.
     ([Restore dir (model_name cfg)], restore env dir (model_name cfg) w4))))))"

subsection \<open>The prompt loop (lines 82 to 99)\<close>

definition sample_header :: "int \<Rightarrow> string" where
  "sample_header generated =
     replicate 40 CHR ''='' @ '' SAMPLE '' @ str generated @ '' '' @ replicate 40 CHR ''=''"

definition separator :: string where
  "separator = replicate 80 CHR ''=''"

definition empty_notice :: string where
  "empty_notice = ''Prompt should not be empty!''"

text \<open>
  Lines 84 to 86: \<^verbatim>\<open>while not raw_text\<close>, with the lines of standard input still unread.
  It returns the prompt and the lines left.
\<close>

fun reprompt :: "string \<Rightarrow> string list \<Rightarrow> 'f event list \<times> (error + string \<times> string list)" where
  "reprompt raw_text [] =
     (if raw_text \<noteq> [] then ([], Inr (raw_text, []))
      else ([Print empty_notice, Input], Inl EOFError))"
| "reprompt raw_text (l # rest) =
     (if raw_text \<noteq> [] then ([], Inr (raw_text, l # rest))
      else (case reprompt l rest of (t, r) \<Rightarrow> (Print empty_notice # Input # t, r)))"

text \<open>
  Lines 94 to 98, the loop over \<^verbatim>\<open>range(batch_size)\<close>: \<open>out\<close> is the array after the
  slice, \<open>generated\<close> the counter. \<^verbatim>\<open>out[i]\<close> raises when the array has no row \<open>i\<close>.
\<close>

fun report :: "encoder \<Rightarrow> token list list \<Rightarrow> nat list \<Rightarrow> int \<Rightarrow> 'f event list \<times> (error + int)" where
  "report enc out [] generated = ([], Inr generated)"
| "report enc out (i # is) generated =
     (if i < length out
      then (case report enc out is (generated + 1) of
              (t, r) \<Rightarrow>
                (Decode (out ! i) # Print (sample_header (generated + 1))
                   # Print (decode enc (out ! i)) # t, r))
      else ([], Inl IndexError))"

text \<open>
  Lines 90 to 98, one pass of the loop over \<^verbatim>\<open>range(nsamples // batch_size)\<close>: the batch
  is the prompt's tokens \<^verbatim>\<open>batch_size\<close> times, and the slice \<^verbatim>\<open>[:, len(context_tokens):]\<close>
  drops that many leading entries of every row.
\<close>

definition gen_round ::
  "('f, 'w) env \<Rightarrow> encoder \<Rightarrow> int \<Rightarrow> token list \<Rightarrow> 'w \<times> int \<Rightarrow> 'f event list \<times> (error + 'w \<times> int)" where
  "gen_round env enc bs context_tokens s =
     (case s of (w, generated) \<Rightarrow>
      then_do
        ([Run (replicate (nat bs) context_tokens)],
         sess_run env w (replicate (nat bs) context_tokens)) (\<lambda>(res, w').
      then_do
        (report enc (map (drop (length context_tokens)) res) [0 ..< nat bs] generated)
        (\<lambda>generated'. ([], Inr (w', generated')))))"

fun rounds ::
  "('f, 'w) env \<Rightarrow> encoder \<Rightarrow> int \<Rightarrow> token list \<Rightarrow> nat \<Rightarrow> 'w \<times> int \<Rightarrow> 'f event list \<times> (error + 'w \<times> int)" where
  "rounds env enc bs context_tokens 0 s = ([], Inr s)"
| "rounds env enc bs context_tokens (Suc k) s =
     (case gen_round env enc bs context_tokens s of
        (t, Inl e) \<Rightarrow> (t, Inl e)
      | (t, Inr s') \<Rightarrow>
          (case rounds env enc bs context_tokens k s' of (t', r) \<Rightarrow> (t @ t', r)))"

text \<open>Lines 87 to 99: one prompt, from its encoding to the closing line.\<close>

definition handle_prompt ::
  "('f, 'w) env \<Rightarrow> encoder \<Rightarrow> int \<Rightarrow> int \<Rightarrow> 'w \<Rightarrow> string \<Rightarrow> 'f event list \<times> (error + 'w)" where
  "handle_prompt env enc n bs w raw_text =
     then_do ([Encode raw_text], Inr (encode enc raw_text)) (\<lambda>context_tokens.
     then_do (rounds env enc bs context_tokens (nat (n div bs)) (w, 0)) (\<lambda>(w', generated).
       ([Print separator], Inr w')))"

text \<open>Lines 82 to 99: \<^verbatim>\<open>while True\<close>. It ends only by an error.\<close>

function serve ::
  "('f, 'w) env \<Rightarrow> encoder \<Rightarrow> int \<Rightarrow> int \<Rightarrow> 'w \<Rightarrow> string list \<Rightarrow> 'f event list \<times> error" where
  "serve env enc n bs w [] = ([Input], EOFError)"
| "serve env enc n bs w (raw_text # ins) =
     (case reprompt raw_text ins of
        (t1, Inl e) \<Rightarrow> (Input # t1, e)
      | (t1, Inr (prompt, ins')) \<Rightarrow>
          (case handle_prompt env enc n bs w prompt of
             (t2, Inl e) \<Rightarrow> (Input # t1 @ t2, e)
           | (t2, Inr w') \<Rightarrow>
               (case serve env enc n bs w' ins' of (t3, e) \<Rightarrow> (Input # t1 @ t2 @ t3, e))))"
  by pat_completeness auto
termination
proof (relation "measure (\<lambda>(env, enc, n, bs, w, ins). length ins)")
  show "wf (measure (\<lambda>(env :: ('f, 'w) env, enc :: encoder, n :: int, bs :: int, w :: 'w,
    ins :: string list). length ins))"
    by simp
next
  fix env :: "('f, 'w) env" and enc :: encoder and n bs :: int and w w' :: 'w
    and raw_text prompt :: string and ins ins' :: "string list"
    and t1 t2 :: "'f event list" and x y
  assume r: "(t1, x) = reprompt raw_text ins" and x: "x = Inr y" and y: "(prompt, ins') = y"
  have shorter: "reprompt a ls = (t :: 'f event list, Inr (p, rest)) \<Longrightarrow> length rest \<le> length ls"
    for a ls t p rest
  proof (induction ls arbitrary: a t)
    case Nil
    then show ?case by (simp split: if_splits)
  next
    case (Cons l ls)
    show ?case
    proof (cases "a = []")
      case False
      with Cons.prems show ?thesis by simp
    next
      case True
      with Cons.prems obtain t' :: "'f event list" where "reprompt l ls = (t', Inr (p, rest))"
        by (auto split: prod.splits)
      from Cons.IH [OF this] show ?thesis by simp
    qed
  qed
  from r x y have "reprompt raw_text ins = (t1, Inr (prompt, ins'))" by simp
  from shorter [OF this]
  show "((env, enc, n, bs, w', ins'), (env, enc, n, bs, w, raw_text # ins))
      \<in> measure (\<lambda>(env, enc, n, bs, w, ins). length ins)"
    by simp
qed

subsection \<open>The whole function\<close>

text \<open>Lines 50 to 80, all that runs once: loading, the length, the session.\<close>

definition startup ::
  "('f, 'w) env \<Rightarrow> 'f config \<Rightarrow> string \<Rightarrow> int \<Rightarrow> 'f event list \<times> (error + encoder \<times> 'w)" where
  "startup env cfg dir bs =
     then_do (load_model env (model_name cfg) dir) (\<lambda>(enc, h).
     then_do ([], resolve_length h (length_arg cfg)) (\<lambda>len.
     then_do (open_session env cfg dir bs h len) (\<lambda>w.
       ([], Inr (enc, w)))))"

definition interact_model ::
  "('f, 'w) env \<Rightarrow> 'f config \<Rightarrow> string list \<Rightarrow> 'f event list \<times> error" where
  "interact_model env cfg stdin =
     (let dir = expand_path env (models_dir cfg) in
      case check_batch_size (nsamples cfg) (batch_size cfg) of
        Inl e \<Rightarrow> ([], e)
      | Inr bs \<Rightarrow>
          (case startup env cfg dir bs of
             (t, Inl e) \<Rightarrow> (t, e)
           | (t, Inr (enc, w)) \<Rightarrow>
               (case serve env enc (nsamples cfg) bs w stdin of (t', e) \<Rightarrow> (t @ t', e))))"

subsection \<open>A concrete environment\<close>

text \<open>
  One environment and one configuration on which the definitions evaluate: a toy encoder
  (a token per character), a model directory whose metadata sets \<^verbatim>\<open>n_ctx\<close> to 8, and a
  generation step that appends two tokens to every row of the batch, drawn from a counter.
\<close>

definition example_encoder :: encoder where
  "example_encoder =
     \<lparr>encode = map (\<lambda>c. if c = CHR ''H'' then 1 else 2),
      decode = map (\<lambda>t. if t = 1 then CHR ''H'' else if t = 2 then CHR ''i'' else CHR ''.'')\<rparr>"

definition example_env :: "(int, int) env" where
  "example_env =
     \<lparr>expand_path = (\<lambda>p. p),
      get_encoder = (\<lambda>name dir. Inr example_encoder),
      default_hparams = [(''n_vocab'', 0), (''n_ctx'', 1024)],
      read_hparams = (\<lambda>dir name. Inr [(''n_ctx'', 8), (''n_layer'', 12)]),
      new_session = Inr 0,
      placeholder = (\<lambda>bs w. Inr w),
      np_seed = (\<lambda>s w. Inr w),
      tf_seed = (\<lambda>s w. Inr (case s of None \<Rightarrow> w | Some k \<Rightarrow> k)),
      sample_sequence = (\<lambda>a w. Inr w),
      restore = (\<lambda>dir name w. Inr w),
      sess_run = (\<lambda>w feed. Inr (map (\<lambda>row. row @ [w, w + 1]) feed, w + 2))\<rparr>"

definition example_config :: "int config" where
  "example_config =
     \<lparr>model_name = ''124M'', seed = Some 3, nsamples = 4, batch_size = Some 2,
      length_arg = None, temperature = 1, top_k = 0, top_p = 1, models_dir = ''models''\<rparr>"

subsection \<open>Kinds of events\<close>

text \<open>The events of the prompt loop, as opposed to those of the start of a run.\<close>

fun loop_event :: "'f event \<Rightarrow> bool" where
  "loop_event Input = True"
| "loop_event (Print s) = True"
| "loop_event (Encode s) = True"
| "loop_event (Run f) = True"
| "loop_event (Decode ts) = True"
| "loop_event e = False"

subsection \<open>The events of a completed round\<close>

text \<open>
  What lines 95 to 98 cause for one row of the output (the decoding, the header with the
  ordinal, the text), and what lines 90 to 98 cause for one round whose rows after the
  slice are \<open>rows\<close>, when the counter stood at \<open>generated\<close> before the round. They state
  the results below; the run itself is computed by \<open>report\<close> and \<open>gen_round\<close>.
\<close>

definition sample_events :: "encoder \<Rightarrow> int \<Rightarrow> token list \<Rightarrow> 'f event list" where
  "sample_events enc ordinal toks =
     [Decode toks, Print (sample_header ordinal), Print (decode enc toks)]"

definition round_events :: "encoder \<Rightarrow> token list list \<Rightarrow> int \<Rightarrow> token list list \<Rightarrow> 'f event list" where
  "round_events enc feed generated rows =
     Run feed # concat (map (\<lambda>(i, toks). sample_events enc (generated + int i + 1) toks)
                          (enumerate 0 rows))"

section \<open>Properties\<close>

subsection \<open>Sequencing and the shape of a run\<close>

lemma fst_then_do:
  "fst (then_do m f) = fst m @ (case snd m of Inl e \<Rightarrow> [] | Inr a \<Rightarrow> fst (f a))"
  by (cases m) (auto simp: then_do_def split: sum.splits prod.splits)

lemma snd_then_do:
  "snd (then_do m f) = (case snd m of Inl e \<Rightarrow> Inl e | Inr a \<Rightarrow> snd (f a))"
  by (cases m) (auto simp: then_do_def split: sum.splits prod.splits)

lemma then_do_Inl: "then_do (t, Inl e) f = (t, Inl e)"
  by (simp add: then_do_def)

lemma then_do_Inr: "then_do (t, Inr a) f = (t @ fst (f a), snd (f a))"
  by (simp add: then_do_def split: prod.splits)

lemma load_model_cases:
  "load_model env name dir =
     (case get_encoder env name dir of
        Inl e \<Rightarrow> ([GetEncoder name dir], Inl e)
      | Inr enc \<Rightarrow>
          (case read_hparams env dir name of
             Inl e \<Rightarrow> ([GetEncoder name dir, DefaultHparams, OpenHparams dir name], Inl e)
           | Inr items \<Rightarrow>
               ([GetEncoder name dir, DefaultHparams, OpenHparams dir name],
                Inr (enc, overlay (default_hparams env) items))))"
  by (simp add: load_model_def then_do_Inl then_do_Inr split: sum.splits)

lemma startup_starts:
  "\<exists>t. fst (startup env cfg dir bs) = GetEncoder (model_name cfg) dir # t"
  by (simp add: startup_def fst_then_do load_model_cases split: sum.splits)

lemma check_batch_size_Inr:
  "check_batch_size n b = Inr bs \<longleftrightarrow>
     bs = (case b of None \<Rightarrow> 1 | Some k \<Rightarrow> k) \<and> bs \<noteq> 0 \<and> n mod bs = 0"
  by (auto simp: check_batch_size_def Let_def)

lemma interact_model_checked:
  "check_batch_size (nsamples cfg) (batch_size cfg) = Inr bs \<Longrightarrow>
   interact_model env cfg stdin =
     (case startup env cfg (expand_path env (models_dir cfg)) bs of
        (t, Inl e) \<Rightarrow> (t, e)
      | (t, Inr (enc, w)) \<Rightarrow>
          (fst (startup env cfg (expand_path env (models_dir cfg)) bs)
             @ fst (serve env enc (nsamples cfg) bs w stdin),
           snd (serve env enc (nsamples cfg) bs w stdin)))"
  by (simp add: interact_model_def Let_def split: prod.splits sum.splits)

lemma startup_loaded:
  assumes "load_model env (model_name cfg) dir = (t, Inr (enc, h))"
  shows "startup env cfg dir bs =
     (case resolve_length h (length_arg cfg) of
        Inl e \<Rightarrow> (t, Inl e)
      | Inr len \<Rightarrow>
          (t @ fst (open_session env cfg dir bs h len),
           case snd (open_session env cfg dir bs h len) of
             Inl e \<Rightarrow> Inl e
           | Inr w \<Rightarrow> Inr (enc, w)))"
  using assms
  by (simp add: startup_def then_do_Inr then_do_Inl fst_then_do snd_then_do split: sum.splits)

lemma load_model_trace:
  "load_model env name dir = (t, r) \<Longrightarrow>
     t = [GetEncoder name dir] \<and> (\<exists>e. r = Inl e) \<or>
     t = [GetEncoder name dir, DefaultHparams, OpenHparams dir name]"
  by (auto simp: load_model_cases split: sum.splits)

lemma open_session_sampler:
  "SampleSequence a \<in> set (fst (open_session env cfg dir bs h len)) \<Longrightarrow>
     a = \<lparr>arg_hparams = h, arg_length = len, arg_batch_size = bs,
          arg_temperature = temperature cfg, arg_top_k = top_k cfg, arg_top_p = top_p cfg\<rparr>"
  by (auto simp: open_session_def fst_then_do split: sum.splits)

lemma reprompt_nonempty:
  "raw_text \<noteq> [] \<Longrightarrow> reprompt raw_text ins = ([], Inr (raw_text, ins))"
  by (cases ins) simp_all

lemma serve_nonempty:
  "raw_text \<noteq> [] \<Longrightarrow>
   serve env enc n bs w (raw_text # ins) =
     (case handle_prompt env enc n bs w raw_text of
        (t, Inl e) \<Rightarrow> (Input # t, e)
      | (t, Inr w') \<Rightarrow>
          (Input # t @ fst (serve env enc n bs w' ins), snd (serve env enc n bs w' ins)))"
  by (simp add: reprompt_nonempty split: prod.splits sum.splits)

lemma serve_empty:
  "serve env enc n bs w ([] # ins) =
     (Input # Print empty_notice # fst (serve env enc n bs w ins), snd (serve env enc n bs w ins))"
  by (cases ins) (simp_all split: prod.splits sum.splits)

lemma interact_model_unchecked:
  "check_batch_size (nsamples cfg) (batch_size cfg) = Inl e \<Longrightarrow>
   interact_model env cfg stdin = ([], e)"
  by (simp add: interact_model_def Let_def)

lemma map_of_setattr: "map_of (setattr h k v) = (map_of h)(k \<mapsto> v)"
  by (simp add: setattr_def update_conv')

lemma overlay_Cons: "overlay h ((k, v) # items) = overlay (setattr h k v) items"
  by (simp add: overlay_def)

lemma overlay_other:
  "k \<notin> fst ` set items \<Longrightarrow> map_of (overlay h items) k = map_of h k"
proof (induction items arbitrary: h)
  case Nil
  then show ?case by (simp add: overlay_def)
next
  case (Cons p items)
  obtain k' v' where p: "p = (k', v')" by (cases p)
  from Cons.prems p have "k \<noteq> k'" and "k \<notin> fst ` set items" by auto
  then show ?case
    by (simp add: p overlay_Cons Cons.IH map_of_setattr)
qed

lemma overlay_hit:
  "distinct (map fst items) \<Longrightarrow> (k, v) \<in> set items \<Longrightarrow> map_of (overlay h items) k = Some v"
proof (induction items arbitrary: h)
  case Nil
  then show ?case by simp
next
  case (Cons p items)
  obtain k' v' where p: "p = (k', v')" by (cases p)
  show ?case
  proof (cases "(k, v) = (k', v')")
    case True
    with Cons.prems p have "k \<notin> fst ` set items" by auto
    with True show ?thesis
      by (simp add: p overlay_Cons overlay_other map_of_setattr)
  next
    case False
    with Cons.prems p have "(k, v) \<in> set items" and "distinct (map fst items)" by auto
    then show ?thesis
      by (simp add: p overlay_Cons Cons.IH)
  qed
qed

lemma report_events:
  "set (fst (report enc out is g :: 'f event list \<times> _)) \<subseteq> range Decode \<union> range Print"
  by (induction "is" arbitrary: g) (auto simp: case_prod_beta)

lemma gen_round_events:
  "set (fst (gen_round env enc bs ctx s))
     \<subseteq> {Run (replicate (nat bs) ctx)} \<union> range Decode \<union> range Print"
  by (cases s)
    (auto simp: gen_round_def fst_then_do case_prod_beta split: sum.splits
          dest!: report_events [THEN subsetD])

lemma rounds_events:
  "set (fst (rounds env enc bs ctx k s))
     \<subseteq> {Run (replicate (nat bs) ctx)} \<union> range Decode \<union> range Print"
proof (induction k arbitrary: s)
  case 0
  show ?case by simp
next
  case (Suc k)
  show ?case
    using gen_round_events [of env enc bs ctx s] Suc.IH
    by (cases "gen_round env enc bs ctx s") (auto simp: case_prod_beta split: sum.splits)
qed

lemma handle_prompt_events:
  "set (fst (handle_prompt env enc n bs w raw_text))
     \<subseteq> {Encode raw_text, Run (replicate (nat bs) (encode enc raw_text))}
        \<union> range Decode \<union> range Print"
  using rounds_events [of env enc bs "encode enc raw_text" "nat (n div bs)" "(w, 0)"]
  by (auto simp: handle_prompt_def fst_then_do case_prod_beta split: sum.splits)

lemma reprompt_events:
  "set (fst (reprompt raw_text ins :: 'f event list \<times> _)) \<subseteq> {Input, Print empty_notice}"
  by (induction ins arbitrary: raw_text) (auto simp: case_prod_beta)

lemma reprompt_result:
  "reprompt raw_text ins = (t :: 'f event list, Inr (p, rest)) \<Longrightarrow>
     p \<noteq> [] \<and> p \<in> set (raw_text # ins) \<and> set rest \<subseteq> set ins"
proof (induction ins arbitrary: raw_text t)
  case Nil
  then show ?case by (simp split: if_splits)
next
  case (Cons l ls)
  show ?case
  proof (cases "raw_text = []")
    case False
    with Cons.prems show ?thesis by auto
  next
    case True
    with Cons.prems obtain t' :: "'f event list" where "reprompt l ls = (t', Inr (p, rest))"
      by (auto split: prod.splits)
    from Cons.IH [OF this] show ?thesis by auto
  qed
qed

lemma reprompt_trace: "\<forall>e \<in> set (fst (reprompt raw_text ins :: 'f event list \<times> _)). loop_event e"
  using reprompt_events [of raw_text ins, where ?'f = 'f] by auto

lemma handle_prompt_trace: "\<forall>e \<in> set (fst (handle_prompt env enc n bs w raw_text)). loop_event e"
  using handle_prompt_events [of env enc n bs w raw_text] by auto

lemma serve_trace: "\<forall>e \<in> set (fst (serve env enc n bs w ins)). loop_event e"
proof (induction env enc n bs w ins rule: serve.induct)
  case (1 env enc n bs w)
  show ?case by simp
next
  case (2 env enc n bs w raw_text ins)
  obtain t1 r1 where r: "reprompt raw_text ins = (t1 :: 'a event list, r1)"
    by (cases "reprompt raw_text ins :: 'a event list \<times> _")
  have t1: "\<forall>e \<in> set t1. loop_event e"
    using reprompt_trace [of raw_text ins, where ?'f = 'a] r by simp
  show ?case
  proof (cases r1)
    case (Inl e)
    with r t1 show ?thesis by simp
  next
    case (Inr pr)
    obtain prompt ins' where pr: "pr = (prompt, ins')" by (cases pr)
    obtain t2 r2 where h: "handle_prompt env enc n bs w prompt = (t2, r2)"
      by (cases "handle_prompt env enc n bs w prompt")
    have t2: "\<forall>e \<in> set t2. loop_event e"
      using handle_prompt_trace [of env enc n bs w prompt] h by simp
    show ?thesis
    proof (cases r2)
      case (Inl e)
      with r \<open>r1 = Inr pr\<close> pr h t1 t2 show ?thesis by auto
    next
      case (Inr w')
      from "2.IH" [OF r [symmetric] \<open>r1 = Inr pr\<close> pr [symmetric] h [symmetric] Inr]
      have "\<forall>e \<in> set (fst (serve env enc n bs w' ins')). loop_event e" .
      with r \<open>r1 = Inr pr\<close> pr h Inr t1 t2 show ?thesis
        by (auto simp: case_prod_beta)
    qed
  qed
qed

lemma serve_encodes:
  "Encode p \<in> set (fst (serve env enc n bs w ins)) \<Longrightarrow> p \<noteq> [] \<and> p \<in> set ins"
proof (induction env enc n bs w ins rule: serve.induct)
  case (1 env enc n bs w)
  then show ?case by simp
next
  case (2 env enc n bs w raw_text ins)
  obtain t1 r1 where r: "reprompt raw_text ins = (t1 :: 'a event list, r1)"
    by (cases "reprompt raw_text ins :: 'a event list \<times> _")
  have t1: "Encode p \<notin> set t1"
    using reprompt_events [of raw_text ins, where ?'f = 'a] r by auto
  show ?case
  proof (cases r1)
    case (Inl e)
    with r t1 "2.prems" show ?thesis by simp
  next
    case (Inr pr)
    obtain prompt ins' where pr: "pr = (prompt, ins')" by (cases pr)
    from reprompt_result [of raw_text ins t1 prompt ins'] r Inr pr
    have res: "prompt \<noteq> []" "prompt \<in> set (raw_text # ins)" "set ins' \<subseteq> set ins"
      by simp_all
    obtain t2 r2 where h: "handle_prompt env enc n bs w prompt = (t2, r2)"
      by (cases "handle_prompt env enc n bs w prompt")
    have t2: "Encode p \<in> set t2 \<Longrightarrow> p = prompt"
      using handle_prompt_events [of env enc n bs w prompt] h by auto
    show ?thesis
    proof (cases r2)
      case (Inl e)
      with r \<open>r1 = Inr pr\<close> pr h t1 t2 res "2.prems" show ?thesis by auto
    next
      case (Inr w')
      from "2.IH" [OF r [symmetric] \<open>r1 = Inr pr\<close> pr [symmetric] h [symmetric] Inr]
      have "Encode p \<in> set (fst (serve env enc n bs w' ins')) \<Longrightarrow> p \<noteq> [] \<and> p \<in> set ins'" .
      with r \<open>r1 = Inr pr\<close> pr h Inr t1 t2 res "2.prems" show ?thesis
        by (auto simp: case_prod_beta)
    qed
  qed
qed

lemma startup_events:
  "set (fst (startup env cfg dir bs)) \<inter> Collect loop_event = {}"
  by (auto simp: startup_def load_model_cases open_session_def fst_then_do snd_then_do
      split: sum.splits)


lemma map_enumerate_Suc:
  "map (\<lambda>(i, x). f i x) (enumerate (Suc n) xs) = map (\<lambda>(i, x). f (Suc i) x) (enumerate n xs)"
  by (simp add: enumerate_Suc_eq case_prod_beta o_def)

lemma report_rows:
  "a + k \<le> length out \<Longrightarrow>
   (report enc out [a ..< a + k] g :: 'f event list \<times> _) =
     (concat (map (\<lambda>(i, toks). sample_events enc (g + int i + 1) toks)
                  (enumerate 0 (take k (drop a out)))),
      Inr (g + int k))"
proof (induction k arbitrary: a g)
  case 0
  show ?case by simp
next
  case (Suc k)
  from Suc.prems have a: "a < length out" and rest: "Suc a + k \<le> length out" by simp_all
  have upt: "[a ..< a + Suc k] = a # [Suc a ..< Suc a + k]"
    by (simp add: upt_conv_Cons)
  have rows: "take (Suc k) (drop a out) = out ! a # take k (drop (Suc a) out)"
    using a by (simp add: Cons_nth_drop_Suc [symmetric])
  show ?case
    unfolding upt rows
    using a Suc.IH [OF rest, of "g + 1"]
    by (simp add: map_enumerate_Suc sample_events_def add.assoc add.commute)
qed


lemma gen_round_rows:
  fixes env :: "('f, 'w) env"
  assumes "sess_run env w (replicate (nat bs) ctx) = Inr (res, w')" and "nat bs \<le> length res"
  shows "gen_round env enc bs ctx (w, g) =
     (round_events enc (replicate (nat bs) ctx) g (map (drop (length ctx)) (take (nat bs) res)),
      Inr (w', g + int (nat bs)))"
proof -
  from assms(2)
  have "(report enc (map (drop (length ctx)) res) [0 ..< nat bs] g :: 'f event list \<times> _) =
     (concat (map (\<lambda>(i, toks). sample_events enc (g + int i + 1) toks)
                  (enumerate 0 (map (drop (length ctx)) (take (nat bs) res)))),
      Inr (g + int (nat bs)))"
    using report_rows [of 0 "nat bs" "map (drop (length ctx)) res" enc g, where ?'f = 'f]
    by (simp add: take_map)
  with assms(1) show ?thesis
    by (simp add: gen_round_def then_do_Inr round_events_def)
qed





text \<open>The equations that evaluate a run on a concrete environment.\<close>

lemmas run_defs =
  interact_model_def startup_def load_model_cases open_session_def handle_prompt_def
  gen_round_def check_batch_size_def resolve_length_def n_ctx_def getattr_def overlay_def
  setattr_def then_do_Inr then_do_Inl Let_def str_def digit_def sample_header_def
  separator_def empty_notice_def


subsection \<open>The check of the batch size\<close>

text \<open>
  Claim C2. Let \<open>bs\<close> be the batch size after the default (1 when the argument is None).
  When \<^verbatim>\<open>nsamples\<close> is not a multiple of \<open>bs\<close> the run ends with the assertion's error and
  has called no collaborator at all: its list of events is empty, so neither the encoder
  nor the hyperparameters nor the checkpoint were asked for. A zero \<open>bs\<close> ends the run in
  the same place, by the remainder's \<^verbatim>\<open>ZeroDivisionError\<close>. Conversely a run that called
  anything has \<open>bs \<noteq> 0\<close> and \<open>nsamples mod bs = 0\<close>, and such a run starts with the load of
  the encoder.
\<close>

theorem batch_check_precedes_loading:
  fixes env :: "('f, 'w) env"
  assumes bs: "bs = (case batch_size cfg of None \<Rightarrow> 1 | Some k \<Rightarrow> k)"
  shows "(bs = 0 \<longrightarrow> interact_model env cfg stdin = ([], ZeroDivisionError)) \<and>
         (bs \<noteq> 0 \<and> nsamples cfg mod bs \<noteq> 0 \<longrightarrow>
            interact_model env cfg stdin = ([], AssertionError)) \<and>
         (fst (interact_model env cfg stdin) \<noteq> [] \<longrightarrow> bs \<noteq> 0 \<and> nsamples cfg mod bs = 0) \<and>
         (bs \<noteq> 0 \<and> nsamples cfg mod bs = 0 \<longrightarrow>
            (\<exists>t. fst (interact_model env cfg stdin)
                   = GetEncoder (model_name cfg) (expand_path env (models_dir cfg)) # t))"
proof (cases "bs \<noteq> 0 \<and> nsamples cfg mod bs = 0")
  case False
  with bs have "interact_model env cfg stdin =
      ([], if bs = 0 then ZeroDivisionError else AssertionError)"
    by (auto simp: interact_model_def check_batch_size_def Let_def)
  with False show ?thesis by auto
next
  case True
  with bs have ok: "check_batch_size (nsamples cfg) (batch_size cfg) = Inr bs"
    by (simp add: check_batch_size_Inr)
  obtain t where t: "fst (startup env cfg (expand_path env (models_dir cfg)) bs)
      = GetEncoder (model_name cfg) (expand_path env (models_dir cfg)) # t"
    using startup_starts by blast
  have "\<exists>t'. fst (interact_model env cfg stdin)
      = GetEncoder (model_name cfg) (expand_path env (models_dir cfg)) # t'"
    using t by (auto simp: interact_model_checked [OF ok] split: prod.splits sum.splits)
  with True show ?thesis by auto
qed

theorem batch_check_precedes_loading_witness:
  "(2::int) = (case batch_size (example_config\<lparr>nsamples := 3\<rparr>) of None \<Rightarrow> 1 | Some k \<Rightarrow> k) \<and>
   nsamples (example_config\<lparr>nsamples := 3\<rparr>) mod 2 \<noteq> 0 \<and>
   interact_model example_env (example_config\<lparr>nsamples := 3\<rparr>) [''Hi''] = ([], AssertionError) \<and>
   (2::int) = (case batch_size example_config of None \<Rightarrow> 1 | Some k \<Rightarrow> k) \<and>
   nsamples example_config mod 2 = 0 \<and>
   fst (interact_model example_env example_config [''Hi'']) \<noteq> []"
  using batch_check_precedes_loading [of 2 "example_config\<lparr>nsamples := 3\<rparr>" example_env "[''Hi'']"]
    batch_check_precedes_loading [of 2 example_config example_env "[''Hi'']"]
  by (auto simp: example_config_def)

subsection \<open>The length of a sample\<close>

text \<open>
  Claim C1. Let the encoder and the hyperparameters \<open>h\<close> be loaded, so that the context
  window \<open>n_ctx h\<close> is known. When \<^verbatim>\<open>length\<close> is None the length is \<open>n_ctx h div 2\<close>, and
  that is the length every call of \<^verbatim>\<open>sample_sequence\<close> in the run receives. When \<^verbatim>\<open>length\<close>
  is set and larger than \<open>n_ctx h\<close>, the resolution raises the \<^verbatim>\<open>ValueError\<close> whose text ends
  with the window size, no run opens a session, and a run that has passed the check of the
  batch size ends with exactly that error (a run that has not passed it has ended before,
  with that check's error and no event).
\<close>

theorem length_resolution:
  fixes env :: "('f, 'w) env"
  assumes load: "load_model env (model_name cfg) (expand_path env (models_dir cfg)) = (t, Inr (enc, h))"
  shows
   "(length_arg cfg = None \<longrightarrow>
       resolve_length h (length_arg cfg) = Inr (n_ctx h div 2) \<and>
       (\<forall>a. SampleSequence a \<in> set (fst (interact_model env cfg stdin)) \<longrightarrow>
            arg_length a = n_ctx h div 2)) \<and>
    (\<forall>l. length_arg cfg = Some l \<and> n_ctx h < l \<longrightarrow>
       resolve_length h (length_arg cfg) =
         Inl (ValueError (''Can't get samples longer than window size: '' @ str (n_ctx h))) \<and>
       Session \<notin> set (fst (interact_model env cfg stdin)) \<and>
       (\<forall>bs. check_batch_size (nsamples cfg) (batch_size cfg) = Inr bs \<longrightarrow>
          interact_model env cfg stdin =
            (t, ValueError (''Can't get samples longer than window size: '' @ str (n_ctx h)))))"
proof (cases "check_batch_size (nsamples cfg) (batch_size cfg)")
  case (Inl e)
  then show ?thesis
    by (simp add: interact_model_unchecked resolve_length_def)
next
  case (Inr bs)
  let ?dir = "expand_path env (models_dir cfg)"
  from load have t: "Session \<notin> set t" "\<And>a. SampleSequence a \<notin> set t"
    by (auto dest: load_model_trace)
  have none: "arg_length a = n_ctx h div 2"
    if "length_arg cfg = None" and "SampleSequence a \<in> set (fst (interact_model env cfg stdin))" for a
  proof -
    from that t have "SampleSequence a \<in> set (fst (open_session env cfg ?dir bs h (n_ctx h div 2)))
        \<or> (\<exists>w. SampleSequence a \<in> set (fst (serve env enc (nsamples cfg) bs w stdin)))"
      by (auto simp: interact_model_checked [OF Inr] startup_loaded [OF load] resolve_length_def
          split: sum.splits)
    moreover have "SampleSequence a \<notin> set (fst (serve env enc (nsamples cfg) bs w stdin))" for w
      using serve_trace [of env enc "nsamples cfg" bs w stdin] by auto
    ultimately show ?thesis
      by (auto dest: open_session_sampler)
  qed
  have some: "interact_model env cfg stdin =
      (t, ValueError (''Can't get samples longer than window size: '' @ str (n_ctx h)))"
    if "length_arg cfg = Some l" and "n_ctx h < l" for l
    using that
    by (simp add: interact_model_checked [OF Inr] startup_loaded [OF load] resolve_length_def)
  show ?thesis
    using none some t Inr by (auto simp: resolve_length_def)
qed

theorem length_resolution_witness:
  "load_model example_env (model_name example_config)
      (expand_path example_env (models_dir example_config)) =
     ([GetEncoder ''124M'' ''models'', DefaultHparams, OpenHparams ''models'' ''124M''],
      Inr (example_encoder, [(''n_vocab'', 0), (''n_ctx'', 8), (''n_layer'', 12)])) \<and>
   length_arg example_config = None \<and>
   resolve_length [(''n_vocab'', 0), (''n_ctx'', 8), (''n_layer'', 12)] None = Inr 4 \<and>
   SampleSequence
     \<lparr>arg_hparams = [(''n_vocab'', 0), (''n_ctx'', 8), (''n_layer'', 12)], arg_length = 4,
      arg_batch_size = 2, arg_temperature = 1, arg_top_k = 0, arg_top_p = 1\<rparr>
     \<in> set (fst (interact_model example_env example_config [])) \<and>
   n_ctx [(''n_vocab'', 0), (''n_ctx'', 8), (''n_layer'', 12)] < 9 \<and>
   check_batch_size 4 (Some 2) = Inr 2 \<and>
   interact_model example_env (example_config\<lparr>length_arg := Some 9\<rparr>) [''Hi''] =
     ([GetEncoder ''124M'' ''models'', DefaultHparams, OpenHparams ''models'' ''124M''],
      ValueError ''Can't get samples longer than window size: 8'') \<and>
   Session \<notin> set (fst (interact_model example_env (example_config\<lparr>length_arg := Some 9\<rparr>) [''Hi'']))"
proof -
  let ?h = "[(''n_vocab'', 0), (''n_ctx'', 8), (''n_layer'', 12)] :: hparams"
  let ?t = "[GetEncoder ''124M'' ''models'', DefaultHparams, OpenHparams ''models'' ''124M'']
    :: int event list"
  have load: "load_model example_env (model_name example_config)
      (expand_path example_env (models_dir example_config)) = (?t, Inr (example_encoder, ?h))"
    by (simp add: run_defs example_env_def example_config_def)
  have load': "load_model example_env (model_name (example_config\<lparr>length_arg := Some 9\<rparr>))
      (expand_path example_env (models_dir (example_config\<lparr>length_arg := Some 9\<rparr>)))
      = (?t, Inr (example_encoder, ?h))"
    by (simp add: run_defs example_env_def example_config_def)
  have built: "SampleSequence
     \<lparr>arg_hparams = ?h, arg_length = 4,
      arg_batch_size = 2, arg_temperature = 1, arg_top_k = 0, arg_top_p = 1\<rparr>
     \<in> set (fst (interact_model example_env example_config []))"
    by (simp add: run_defs example_env_def example_config_def)
  have small: "n_ctx ?h < 9" and half: "n_ctx ?h div 2 = 4"
    by (simp_all add: n_ctx_def getattr_def)
  have ok: "check_batch_size 4 (Some 2) = Inr 2"
    by (simp add: check_batch_size_def)
  have eight: "str 8 = ''8''"
    by (simp add: str_def digit_def)
  from length_resolution [OF load, of "[]"] length_resolution [OF load', of "[''Hi'']"]
    load built small half ok eight
  show ?thesis
    by (simp add: example_config_def n_ctx_def getattr_def)
qed

subsection \<open>Rounds and ordinals\<close>



subsection \<open>The batch fed and the slice\<close>

text \<open>
  Claim C4. Every call of the generation that a prompt causes, in whatever round and
  whether or not the prompt is served to its end, is fed the batch that holds the encoded
  prompt \<open>nat bs\<close> times, and nothing else. In a round, from any state of the runtime and
  any value of the counter: when the generation returns at least \<open>nat bs\<close> rows, the first
  \<open>nat bs\<close> of them are decoded, each without its first \<open>length ctx\<close> tokens; so when the
  rows returned are the prompt's tokens followed by continuations, what is decoded and
  printed is exactly the continuations.
\<close>

theorem batch_and_truncation:
  fixes env :: "('f, 'w) env"
  shows
   "(\<forall>f. Run f \<in> set (fst (handle_prompt env enc n bs w raw_text)) \<longrightarrow>
         f = replicate (nat bs) (encode enc raw_text)) \<and>
    (\<forall>res w'. sess_run env w (replicate (nat bs) ctx) = Inr (res, w') \<and> nat bs \<le> length res \<longrightarrow>
         gen_round env enc bs ctx (w, g) =
           (round_events enc (replicate (nat bs) ctx) g
              (map (drop (length ctx)) (take (nat bs) res)),
            Inr (w', g + int (nat bs)))) \<and>
    (\<forall>conts w'. sess_run env w (replicate (nat bs) ctx) = Inr (map ((@) ctx) conts, w') \<and>
         length conts = nat bs \<longrightarrow>
         gen_round env enc bs ctx (w, g) =
           (round_events enc (replicate (nat bs) ctx) g conts, Inr (w', g + int (nat bs))))"
proof -
  have "gen_round env enc bs ctx (w, g) =
           (round_events enc (replicate (nat bs) ctx) g conts, Inr (w', g + int (nat bs)))"
    if "sess_run env w (replicate (nat bs) ctx) = Inr (map ((@) ctx) conts, w')"
      and "length conts = nat bs" for conts w'
  proof -
    have "map (drop (length ctx)) (take (nat bs) (map ((@) ctx) conts)) = conts"
      using that(2) by (simp add: take_map o_def)
    with gen_round_rows [OF that(1), of enc g] that(2) show ?thesis
      by simp
  qed
  then show ?thesis
    using handle_prompt_events [of env enc n bs w raw_text]
    by (auto simp: gen_round_rows)
qed

theorem batch_and_truncation_witness:
  "Run [[1, 2], [1, 2]] \<in> set (fst (handle_prompt example_env example_encoder 4 2 (0::int) ''Hi'')) \<and>
   [[1, 2], [1, 2]] = replicate (nat 2) (encode example_encoder ''Hi'') \<and>
   sess_run example_env 0 (replicate (nat 2) [1, 2]) = Inr (map ((@) [1, 2]) [[0, 1], [0, 1]], 2) \<and>
   length [[0, 1], [0, 1 :: int]] = nat 2 \<and>
   gen_round example_env example_encoder 2 [1, 2] (0, 0) =
     (round_events example_encoder (replicate (nat 2) [1, 2]) 0 [[0, 1], [0, 1]], Inr (2, 2)) \<and>
   round_events example_encoder (replicate (nat 2) [1, 2]) 0 [[0, 1], [0, 1]] =
     [Run [[1, 2], [1, 2]],
      Decode [0, 1], Print (sample_header 1), Print ''.H'',
      Decode [0, 1], Print (sample_header 2), Print ''.H'' :: int event]"
proof -
  have fed: "Run [[1, 2], [1, 2]]
      \<in> set (fst (handle_prompt example_env example_encoder 4 2 (0::int) ''Hi''))"
    by code_simp
  have run: "sess_run example_env 0 (replicate (nat 2) [1, 2])
      = Inr (map ((@) [1, 2]) [[0, 1], [0, 1]], 2)"
    by (simp add: example_env_def eval_nat_numeral)
  have len: "length [[0, 1], [0, 1 :: int]] = nat 2"
    by simp
  have shape: "round_events example_encoder (replicate (nat 2) [1, 2]) 0 [[0, 1], [0, 1]] =
     [Run [[1, 2], [1, 2]],
      Decode [0, 1], Print (sample_header 1), Print ''.H'',
      Decode [0, 1], Print (sample_header 2), Print ''.H'' :: int event]"
    by (simp add: round_events_def sample_events_def example_encoder_def enumerate_eq_zip
        eval_nat_numeral)
  note all = batch_and_truncation [of example_env example_encoder 4 2 0 "''Hi''" "[1, 2]" 0]
  from all [THEN conjunct1, rule_format, OF fed]
  have same: "[[1, 2], [1, 2]] = replicate (nat 2) (encode example_encoder ''Hi'')" .
  from all [THEN conjunct2, THEN conjunct2, rule_format, of "[[0, 1], [0, 1]]" 2] run len
  have round: "gen_round example_env example_encoder 2 [1, 2] (0, 0) =
     (round_events example_encoder (replicate (nat 2) [1, 2]) 0 [[0, 1], [0, 1]], Inr (2, 2))"
    by simp
  from fed same run len round shape show ?thesis
    by (intro conjI)
qed

subsection \<open>Empty prompts\<close>

text \<open>
  Claim C6. An empty line read as a prompt causes the notice to be printed and the next
  line to be read, and nothing else: the run goes on exactly as the loop does on the
  remaining lines from the same state of the runtime, so between the empty line and the
  next read there is no \<open>Encode\<close>, no \<open>Run\<close>, and no sample counter (the counter of the source
  is set to 0 only after a prompt has been encoded). Every text that is encoded, in the loop
  and in the whole run, is a non-empty line of the input.
\<close>

theorem empty_prompt_reprompts:
  fixes env :: "('f, 'w) env"
  shows
   "serve env enc n bs w ([] # ins) =
      (Input # Print empty_notice # fst (serve env enc n bs w ins),
       snd (serve env enc n bs w ins)) \<and>
    (\<forall>p. Encode p \<in> set (fst (serve env enc n bs w ins)) \<longrightarrow> p \<noteq> [] \<and> p \<in> set ins) \<and>
    (\<forall>p. Encode p \<in> set (fst (interact_model env cfg stdin)) \<longrightarrow> p \<noteq> [] \<and> p \<in> set stdin)"
proof -
  have "p \<noteq> [] \<and> p \<in> set stdin"
    if p: "Encode p \<in> set (fst (interact_model env cfg stdin))" for p
  proof (cases "check_batch_size (nsamples cfg) (batch_size cfg)")
    case (Inl e)
    with p show ?thesis by (simp add: interact_model_unchecked)
  next
    case (Inr b)
    have "Encode p \<notin> set (fst (startup env cfg (expand_path env (models_dir cfg)) b))"
      using startup_events [of env cfg "expand_path env (models_dir cfg)" b] by auto
    with p obtain enc' w' where "Encode p \<in> set (fst (serve env enc' (nsamples cfg) b w' stdin))"
      by (auto simp: interact_model_checked [OF Inr] split: prod.splits sum.splits)
    then show ?thesis by (rule serve_encodes)
  qed
  then show ?thesis
    using serve_encodes [of _ env enc n bs w ins] by (simp add: serve_empty del: serve.simps)
qed

theorem empty_prompt_reprompts_witness:
  "serve example_env example_encoder 4 2 0 [''''] = ([Input, Print empty_notice, Input], EOFError) \<and>
   serve example_env example_encoder 4 2 0 ['''', ''Hi''] =
     (Input # Print empty_notice # fst (serve example_env example_encoder 4 2 0 [''Hi'']),
      snd (serve example_env example_encoder 4 2 0 [''Hi''])) \<and>
   Encode ''Hi'' \<in> set (fst (interact_model example_env example_config ['''', ''Hi''])) \<and>
   ''Hi'' \<noteq> [] \<and> ''Hi'' \<in> set ['''', ''Hi'']"
proof -
  have enc: "Encode ''Hi'' \<in> set (fst (interact_model example_env example_config ['''', ''Hi'']))"
    by code_simp
  from empty_prompt_reprompts [of example_env example_encoder 4 2 0 "[]" example_config "[]"]
    empty_prompt_reprompts [of example_env example_encoder 4 2 0 "[''Hi'']" example_config "['''', ''Hi'']"]
    enc
  show ?thesis
    by (simp del: serve.simps) simp
qed

subsection \<open>The overlay of the metadata\<close>

text \<open>
  Claim C7. The items of \<^verbatim>\<open>hparams.json\<close> are the items of a dictionary, so their keys are
  distinct. After the loop of \<^verbatim>\<open>setattr\<close> every key of the file has the file's value, whether
  the defaults had the key or not; every other attribute keeps its default; and the context
  window read by \<^verbatim>\<open>getattr(hparams, 'n_ctx', 1024)\<close> is the attribute's value when there is
  one and 1024 when there is none. The hyperparameters \<open>load_model\<close> returns are this overlay
  of the defaults.
\<close>

theorem metadata_overrides_defaults:
  fixes env :: "('f, 'w) env"
  assumes "distinct (map fst items)"
  shows "(\<forall>k v. (k, v) \<in> set items \<longrightarrow> map_of (overlay d items) k = Some v) \<and>
         (\<forall>k. k \<notin> fst ` set items \<longrightarrow> map_of (overlay d items) k = map_of d k) \<and>
         (map_of (overlay d items) ''n_ctx'' = None \<longrightarrow> n_ctx (overlay d items) = 1024) \<and>
         (\<forall>v. map_of (overlay d items) ''n_ctx'' = Some v \<longrightarrow> n_ctx (overlay d items) = v) \<and>
         (\<forall>enc. get_encoder env name dir = Inr enc \<and> read_hparams env dir name = Inr items \<longrightarrow>
            snd (load_model env name dir) = Inr (enc, overlay (default_hparams env) items))"
  using assms
  by (auto simp: overlay_hit overlay_other n_ctx_def getattr_def load_model_cases)

theorem metadata_overrides_defaults_witness:
  "distinct (map fst [(''n_ctx'', 8::int), (''n_layer'', 12)]) \<and>
   map_of (overlay [(''n_vocab'', 0), (''n_ctx'', 1024)] [(''n_ctx'', 8), (''n_layer'', 12)]) ''n_ctx''
     = Some 8 \<and>
   map_of (overlay [(''n_vocab'', 0), (''n_ctx'', 1024)] [(''n_ctx'', 8), (''n_layer'', 12)]) ''n_layer''
     = Some 12 \<and>
   map_of (overlay [(''n_vocab'', 0), (''n_ctx'', 1024)] [(''n_ctx'', 8), (''n_layer'', 12)]) ''n_vocab''
     = Some 0 \<and>
   n_ctx (overlay [(''n_vocab'', 0), (''n_ctx'', 1024)] [(''n_ctx'', 8), (''n_layer'', 12)]) = 8 \<and>
   distinct (map fst [(''n_layer'', 12::int)]) \<and>
   map_of (overlay [(''n_vocab'', 0)] [(''n_layer'', 12)]) ''n_ctx'' = None \<and>
   n_ctx (overlay [(''n_vocab'', 0)] [(''n_layer'', 12)]) = 1024 \<and>
   snd (load_model example_env ''124M'' ''models'') =
     Inr (example_encoder,
          overlay (default_hparams example_env) [(''n_ctx'', 8), (''n_layer'', 12)])"
proof -
  have d1: "distinct (map fst [(''n_ctx'', 8::int), (''n_layer'', 12)])"
    and d2: "distinct (map fst [(''n_layer'', 12::int)])"
    by simp_all
  have none: "map_of (overlay [(''n_vocab'', 0)] [(''n_layer'', 12)]) ''n_ctx'' = None"
    by (simp add: overlay_def setattr_def)
  have env: "get_encoder example_env ''124M'' ''models'' = Inr example_encoder"
    "read_hparams example_env ''models'' ''124M'' = Inr [(''n_ctx'', 8), (''n_layer'', 12)]"
    by (simp_all add: example_env_def)
  from metadata_overrides_defaults [OF d1, of "[(''n_vocab'', 0), (''n_ctx'', 1024)]"
      example_env "''124M''" "''models''"]
    metadata_overrides_defaults [OF d2, of "[(''n_vocab'', 0)]" example_env "''124M''" "''models''"]
    none env d1 d2
  show ?thesis
    by (simp add: overlay_def setattr_def)
qed

subsection \<open>Seeding\<close>



subsection \<open>Where the configuration errors are raised\<close>

text \<open>
  Claim C9, as the code has it. The error of the batch size is raised before any
  collaborator is called: the run has no event. The error of the length needs the context
  window, which comes from the hyperparameters: it is raised after the encoder and the
  hyperparameters have been loaded, and before the session is opened, the sampler built or
  the checkpoint restored. The run's events are then exactly the three loads.
\<close>

theorem config_errors_precede_session:
  fixes env :: "('f, 'w) env"
  shows
   "(\<forall>e. check_batch_size (nsamples cfg) (batch_size cfg) = Inl e \<longrightarrow>
        interact_model env cfg stdin = ([], e)) \<and>
    (\<forall>bs t enc h e.
        check_batch_size (nsamples cfg) (batch_size cfg) = Inr bs \<and>
        load_model env (model_name cfg) (expand_path env (models_dir cfg)) = (t, Inr (enc, h)) \<and>
        resolve_length h (length_arg cfg) = Inl e \<longrightarrow>
        interact_model env cfg stdin =
          ([GetEncoder (model_name cfg) (expand_path env (models_dir cfg)), DefaultHparams,
            OpenHparams (expand_path env (models_dir cfg)) (model_name cfg)], e))"
proof -
  have "interact_model env cfg stdin =
          ([GetEncoder (model_name cfg) (expand_path env (models_dir cfg)), DefaultHparams,
            OpenHparams (expand_path env (models_dir cfg)) (model_name cfg)], e)"
    if "check_batch_size (nsamples cfg) (batch_size cfg) = Inr bs"
      and "load_model env (model_name cfg) (expand_path env (models_dir cfg)) = (t, Inr (enc, h))"
      and "resolve_length h (length_arg cfg) = Inl e" for bs t enc h e
    using that load_model_trace [OF that(2)]
    by (simp add: interact_model_checked startup_loaded)
  then show ?thesis
    by (auto simp: interact_model_unchecked)
qed

theorem config_errors_precede_session_witness:
  "check_batch_size (nsamples (example_config\<lparr>nsamples := 3\<rparr>))
      (batch_size (example_config\<lparr>nsamples := 3\<rparr>)) = Inl AssertionError \<and>
   interact_model example_env (example_config\<lparr>nsamples := 3\<rparr>) [''Hi''] = ([], AssertionError) \<and>
   check_batch_size (nsamples (example_config\<lparr>length_arg := Some 9\<rparr>))
      (batch_size (example_config\<lparr>length_arg := Some 9\<rparr>)) = Inr 2 \<and>
   load_model example_env (model_name (example_config\<lparr>length_arg := Some 9\<rparr>))
      (expand_path example_env (models_dir (example_config\<lparr>length_arg := Some 9\<rparr>))) =
     ([GetEncoder ''124M'' ''models'', DefaultHparams, OpenHparams ''models'' ''124M''],
      Inr (example_encoder, [(''n_vocab'', 0), (''n_ctx'', 8), (''n_layer'', 12)])) \<and>
   resolve_length [(''n_vocab'', 0), (''n_ctx'', 8), (''n_layer'', 12)]
      (length_arg (example_config\<lparr>length_arg := Some 9\<rparr>)) =
     Inl (ValueError ''Can't get samples longer than window size: 8'') \<and>
   interact_model example_env (example_config\<lparr>length_arg := Some 9\<rparr>) [''Hi''] =
     ([GetEncoder (model_name (example_config\<lparr>length_arg := Some 9\<rparr>))
         (expand_path example_env (models_dir (example_config\<lparr>length_arg := Some 9\<rparr>))),
       DefaultHparams,
       OpenHparams (expand_path example_env (models_dir (example_config\<lparr>length_arg := Some 9\<rparr>)))
         (model_name (example_config\<lparr>length_arg := Some 9\<rparr>))],
      ValueError ''Can't get samples longer than window size: 8'')"
proof -
  let ?c3 = "example_config\<lparr>nsamples := 3\<rparr>"
  let ?c9 = "example_config\<lparr>length_arg := Some 9\<rparr>"
  let ?h = "[(''n_vocab'', 0), (''n_ctx'', 8), (''n_layer'', 12)] :: hparams"
  have a: "check_batch_size (nsamples ?c3) (batch_size ?c3) = Inl AssertionError"
    by (simp add: check_batch_size_def example_config_def)
  have b: "check_batch_size (nsamples ?c9) (batch_size ?c9) = Inr 2"
    by (simp add: check_batch_size_def example_config_def)
  have c: "load_model example_env (model_name ?c9) (expand_path example_env (models_dir ?c9)) =
     ([GetEncoder ''124M'' ''models'', DefaultHparams, OpenHparams ''models'' ''124M''],
      Inr (example_encoder, ?h))"
    by (simp add: run_defs example_env_def example_config_def)
  have d: "resolve_length ?h (length_arg ?c9) =
     Inl (ValueError ''Can't get samples longer than window size: 8'')"
    by (simp add: run_defs example_config_def)
  from config_errors_precede_session [of ?c3 example_env "[''Hi'']"]
    config_errors_precede_session [of ?c9 example_env "[''Hi'']"] a b c d
  show ?thesis
    by blast
qed

text \<open>
  The claim as the specification words it, that no encoder or hyperparameter resource is
  loaded before the failing check, does not hold for the length: with a window of 8 and a
  length of 9 the run loads the encoder and the hyperparameters and only then raises.
\<close>

theorem length_check_follows_loading:
  "interact_model example_env (example_config\<lparr>length_arg := Some 9\<rparr>) [] =
     ([GetEncoder ''124M'' ''models'', DefaultHparams, OpenHparams ''models'' ''124M''],
      ValueError ''Can't get samples longer than window size: 8'')"
  by (simp add: interact_model_def example_env_def example_config_def check_batch_size_def
      startup_def load_model_cases then_do_Inr then_do_Inl resolve_length_def n_ctx_def
      getattr_def overlay_def setattr_def str_def digit_def Let_def)

subsection \<open>No samples\<close>

text \<open>
  Claim C10. With \<^verbatim>\<open>nsamples = 0\<close> and a positive batch size (given, or 1 by default) the
  check of the batch size passes. A prompt is encoded, the loop over the rounds runs zero
  times (no \<open>Run\<close>, no \<open>Decode\<close>, no sample header), the closing line of 80 equals signs is
  printed, the runtime's state is unchanged, and the loop goes on to read the next prompt.
\<close>

theorem zero_samples:
  fixes env :: "('f, 'w) env"
  assumes "bs = (case b of None \<Rightarrow> 1 | Some k \<Rightarrow> k)" and "0 < bs"
  shows "check_batch_size 0 b = Inr bs \<and>
         handle_prompt env enc 0 bs w raw_text = ([Encode raw_text, Print separator], Inr w) \<and>
         (raw_text \<noteq> [] \<longrightarrow>
            serve env enc 0 bs w (raw_text # ins) =
              (Input # Encode raw_text # Print separator # fst (serve env enc 0 bs w ins),
               snd (serve env enc 0 bs w ins)))"
proof -
  have h: "handle_prompt env enc 0 bs w raw_text = ([Encode raw_text, Print separator], Inr w)"
    by (simp add: handle_prompt_def then_do_Inr)
  from assms have "check_batch_size 0 b = Inr bs"
    by (simp add: check_batch_size_Inr)
  with h show ?thesis
    by (simp add: serve_nonempty del: serve.simps)
qed

theorem zero_samples_witness:
  "(2::int) = (case Some 2 of None \<Rightarrow> 1 | Some k \<Rightarrow> k) \<and> (0::int) < 2 \<and>
   check_batch_size 0 (Some 2) = Inr 2 \<and>
   handle_prompt example_env example_encoder 0 2 (0::int) ''Hi'' =
     ([Encode ''Hi'', Print separator], Inr 0) \<and>
   ''Hi'' \<noteq> [] \<and>
   serve example_env example_encoder 0 2 0 [''Hi''] =
     ([Input, Encode ''Hi'', Print separator, Input], EOFError)"
  using zero_samples [of 2 "Some 2" example_env example_encoder 0 "''Hi''" "[]"]
  by simp

end
